theory Spec2Isabelle
  imports Main
begin

section \<open>Data model\<close>

text \<open>
  The module \<^verbatim>\<open>backend/utils/notion_client.go\<close> walks a tree of blocks served by
  a remote content service and renders it as markdown.  Every value the Go code receives
  through an interface of the \<^verbatim>\<open>notionapi\<close> library is modelled by a record that carries
  what the interface's methods return, together with the dynamic (concrete) type that the
  code's type assertions inspect.  A failed type assertion and a nil dereference are
  panics; they are values of the model.
\<close>

abbreviation LF :: string where
  "LF \<equiv> [CHR 0x0A]"

abbreviation DQ :: string where
  "DQ \<equiv> [CHR 0x22]"

text \<open>A Go call either returns or panics; nothing in the module recovers a panic.\<close>

datatype 'a result = Returns 'a | Panics string

abbreviation interface_conversion :: string where
  "interface_conversion \<equiv> ''interface conversion''"

abbreviation nil_dereference :: string where
  "nil_dereference \<equiv> ''invalid memory address or nil pointer dereference''"

text \<open>\<^verbatim>\<open>notionapi.BlockType\<close>: the kinds the module names, and any other kind.\<close>

datatype BlockType =
    BlockTypeHeading1
  | BlockTypeParagraph
  | BlockTypeHeading2
  | BlockTypeHeading3
  | BlockTypeBulletedListItem
  | BlockTypeNumberedListItem
  | BlockTypeToggle
  | BlockTypeQuote
  | BlockTypeCode
  | BlockTypeTableRowBlock
  | BlockTypeTableBlock
  | BlockTypeDivider
  | BlockTypeVideo
  | BlockTypeEmbed
  | BlockTypeCallout
  | BlockTypeToDo
  | BlockTypeImage
  | BlockTypeUnsupported
  | BlockTypeOther string

fun BlockType_String :: "BlockType \<Rightarrow> string" where
  "BlockType_String BlockTypeHeading1 = ''heading_1''"
| "BlockType_String BlockTypeParagraph = ''paragraph''"
| "BlockType_String BlockTypeHeading2 = ''heading_2''"
| "BlockType_String BlockTypeHeading3 = ''heading_3''"
| "BlockType_String BlockTypeBulletedListItem = ''bulleted_list_item''"
| "BlockType_String BlockTypeNumberedListItem = ''numbered_list_item''"
| "BlockType_String BlockTypeToggle = ''toggle''"
| "BlockType_String BlockTypeQuote = ''quote''"
| "BlockType_String BlockTypeCode = ''code''"
| "BlockType_String BlockTypeTableRowBlock = ''table_row''"
| "BlockType_String BlockTypeTableBlock = ''table''"
| "BlockType_String BlockTypeDivider = ''divider''"
| "BlockType_String BlockTypeVideo = ''video''"
| "BlockType_String BlockTypeEmbed = ''embed''"
| "BlockType_String BlockTypeCallout = ''callout''"
| "BlockType_String BlockTypeToDo = ''to_do''"
| "BlockType_String BlockTypeImage = ''image''"
| "BlockType_String BlockTypeUnsupported = ''unsupported''"
| "BlockType_String (BlockTypeOther s) = s"

record RichText =
  PlainText :: string

text \<open>
  The dynamic type of a \<^verbatim>\<open>notionapi.Block\<close> value, with the payload the module reads
  from it: \<^verbatim>\<open>TableRow.Cells\<close>, \<^verbatim>\<open>Table.HasRowHeader\<close>, \<^verbatim>\<open>Audio.GetURL()\<close>,
  \<^verbatim>\<open>Embed.URL\<close>, \<^verbatim>\<open>ToDo.Checked\<close>.  The module asserts \<^verbatim>\<open>*notionapi.AudioBlock\<close>
  (a pointer) for videos and \<^verbatim>\<open>notionapi.EmbedBlock\<close> (a struct value) for embeds, so
  the pointer and the value types are kept apart.
\<close>

datatype Concrete =
    PtrTableRowBlock "RichText list list"
  | PtrTableBlock bool
  | PtrAudioBlock string
  | PtrVideoBlock string
  | EmbedBlock string
  | PtrEmbedBlock string
  | PtrToDoBlock bool
  | OtherBlock

record Parent =
  Parent_PageID :: string
  Parent_BlockID :: string

text \<open>
  \<^verbatim>\<open>GetParent\<close> yields a pointer, nil for a block decoded without a parent reference.
\<close>

record Block =
  GetID :: string
  GetType :: BlockType
  GetHasChildren :: bool
  GetParent :: "Parent option"
  GetRichTextString :: string
  Dynamic :: Concrete

record Pagination =
  StartCursor :: string
  PageSize :: nat

abbreviation empty_Pagination :: Pagination where
  "empty_Pagination \<equiv> \<lparr>StartCursor = [], PageSize = 0\<rparr>"

record GetChildrenResponse =
  Results :: "Block list"
  NextCursor :: string
  HasMore :: bool

text \<open>The image resource as the module decodes it from JSON.\<close>

record File =
  File_URL :: string

record Image =
  Image_Caption :: "string list"
  Image_Type :: string
  Image_File :: File

record ImageBlock =
  ImageBlock_Object :: string
  ImageBlock_ID :: string
  ImageBlock_ParentID :: string
  ImageBlock_HasChildren :: bool
  ImageBlock_Type :: string
  ImageBlock_Image :: Image

record Request =
  Request_Method :: string
  Request_URL :: string
  Request_Header :: "(string \<times> string) list"

text \<open>The answer of the service to a request: its status code and its body.\<close>

record Response =
  StatusCode :: nat
  Body :: string

text \<open>Search results: \<^verbatim>\<open>notionapi.Object\<close> values with their dynamic type.\<close>

datatype Property = PtrTitleProperty "RichText list" | OtherProperty

record NotionPage =
  NotionPage_ID :: string
  Properties :: "string \<rightharpoonup> Property"

record Database =
  Database_ID :: string
  Database_Title :: "RichText list"

datatype ObjectConcrete =
    PtrPage NotionPage
  | IsBlock Block
  | PtrDatabase Database
  | OtherObject

record Object =
  GetObject :: string
  ObjectDynamic :: ObjectConcrete

record SearchFilter =
  Filter_Value :: string
  Filter_Property :: string

record SearchRequest =
  Query :: string
  Filter :: SearchFilter

text \<open>\<^verbatim>\<open>domain.PageInfo\<close> and \<^verbatim>\<open>domain.Page\<close>, with the fields the module uses.\<close>

record PageInfo =
  PageInfo_Id :: string
  PageInfo_Title :: string

record Page =
  Page_ID :: string
  Page_Title :: string
  Page_Content :: string

text \<open>
  The client: its token, and the remote operations it performs.  An operation that
  fails yields \<open>Inl\<close> of the error's message (and, as the library does, a nil response).
  \<open>Block_Get\<close> and \<open>Block_GetChildren\<close> are the library's block endpoints, \<open>Search_Do\<close>
  its search (yielding the \<^verbatim>\<open>Results\<close> of the response); \<open>NewRequest\<close>, \<open>Do\<close> and \<open>Decode\<close> are \<^verbatim>\<open>http.NewRequest\<close>,
  \<^verbatim>\<open>http.Client.Do\<close>, which fails only when no answer is received and yields the
  answer of any status otherwise, and the JSON decoder of \<^verbatim>\<open>getImageURL\<close>.
\<close>

record NotionClient =
  token :: string
  Block_Get :: "string \<Rightarrow> string + Block"
  Block_GetChildren :: "string \<Rightarrow> Pagination \<Rightarrow> string + GetChildrenResponse"
  Search_Do :: "SearchRequest \<Rightarrow> string + Object list"
  NewRequest :: "string \<Rightarrow> string \<Rightarrow> string + Request"
  Do :: "Request \<Rightarrow> string + Response"
  Decode :: "string \<Rightarrow> string + ImageBlock"

text \<open>What the module writes to its logger.\<close>

datatype log_field = log_String string string | log_Error "string option"

datatype log_entry = logger_Error string "log_field list" | logger_Info string "log_field list"

section \<open>Formatting\<close>

text \<open>The \<^verbatim>\<open>%d\<close> verb on a non-negative count.\<close>

function Sprintf_d :: "nat \<Rightarrow> string" where
  "Sprintf_d n =
     (if n < 10 then [''0123456789'' ! n]
      else Sprintf_d (n div 10) @ [''0123456789'' ! (n mod 10)])"
  by pat_completeness auto
termination
  by (relation "measure (\<lambda>n. n)") auto

declare Sprintf_d.simps [simp del]

section \<open>The numbering helper\<close>

text \<open>
  The loop of \<^verbatim>\<open>getNumberedListNumber\<close> over \<^verbatim>\<open>children.Results\<close>, with its
  counter \<open>i\<close>; the final \<^verbatim>\<open>return i\<close> is the empty-list equation.  The counter
  starts at 0 and is only incremented, once for an entry of the list at most, so the Go
  \<^verbatim>\<open>int\<close> never wraps and is a natural number here.  The helper reads the field
  \<^verbatim>\<open>BlockID\<close> through the pointer \<^verbatim>\<open>block.GetParent()\<close>: on a nil pointer it panics.
\<close>

fun numbered_scan :: "string \<Rightarrow> Block list \<Rightarrow> nat \<Rightarrow> nat" where
  "numbered_scan target [] i = i"
| "numbered_scan target (child # rest) i =
     (if GetID child = target then i + 1
      else if GetType child = BlockTypeNumberedListItem then numbered_scan target rest (i + 1)
      else numbered_scan target rest i)"

definition getNumberedListNumber :: "NotionClient \<Rightarrow> Block \<Rightarrow> nat result" where
  "getNumberedListNumber c block =
     (case GetParent block of
        None \<Rightarrow> Panics nil_dereference
      | Some parent \<Rightarrow>
          (let parentId = Parent_BlockID parent in
           case Block_GetChildren c parentId empty_Pagination of
             Inl err \<Rightarrow> Returns 1
           | Inr children \<Rightarrow> Returns (numbered_scan (GetID block) (Results children) 0)))"

section \<open>The image lookup\<close>

definition getImageURL :: "NotionClient \<Rightarrow> Block \<Rightarrow> string + string" where
  "getImageURL c block =
     (let url = ''https://api.notion.com/v1/blocks/'' @ GetID block in
      case NewRequest c ''GET'' url of
        Inl err \<Rightarrow> Inl err
      | Inr req \<Rightarrow>
          (let req' = req\<lparr>Request_Header := Request_Header req @
                 [(''Authorization'', ''Bearer '' @ token c),
                  (''Notion-Version'', ''2021-08-16''),
                  (''Content-Type'', ''application/json'')]\<rparr> in
           case Do c req' of
             Inl err \<Rightarrow> Inl err
           | Inr resp \<Rightarrow>
               (case Decode c (Body resp) of
                  Inl err \<Rightarrow> Inl err
                | Inr data \<Rightarrow> Inr (File_URL (Image_File (ImageBlock_Image data))))))"

section \<open>The block renderer\<close>

fun first_PlainText :: "RichText list \<Rightarrow> string" where
  "first_PlainText [] = []"
| "first_PlainText (t # ts) = PlainText t"

text \<open>
  The cell loop of the table-row case: the first run's text of each cell (nothing for an
  empty cell), and \<^verbatim>\<open>" | "\<close> after every cell but the last.
\<close>

fun write_cells :: "RichText list list \<Rightarrow> string" where
  "write_cells [] = []"
| "write_cells [cell] = first_PlainText cell"
| "write_cells (cell # rest) = first_PlainText cell @ '' | '' @ write_cells rest"

text \<open>The inner loop of the table case: \<^verbatim>\<open>"| ---"\<close> written \<open>len\<close> times.\<close>

primrec write_dashes :: "nat \<Rightarrow> string" where
  "write_dashes 0 = []"
| "write_dashes (Suc j) = ''| ---'' @ write_dashes j"

text \<open>
  The row loop of the table case, over the rows paired with what \<^verbatim>\<open>BlockToMarkdown\<close>
  makes of each; \<open>i\<close> is the loop index and \<open>res\<close> the builder.  The first row of a
  table with \<open>hasRow\<close> is asserted to be a \<^verbatim>\<open>*notionapi.TableRowBlock\<close>.
\<close>

fun table_rows :: "bool \<Rightarrow> nat \<Rightarrow> (Block \<times> string result option) list \<Rightarrow> string
    \<Rightarrow> string result option" where
  "table_rows hasRow i [] res = Some (Returns res)"
| "table_rows hasRow i ((temp, r) # rest) res =
     (case r of
        None \<Rightarrow> None
      | Some (Panics p) \<Rightarrow> Some (Panics p)
      | Some (Returns s) \<Rightarrow>
          (if i = 0 \<and> hasRow then
             (case Dynamic temp of
                PtrTableRowBlock cells \<Rightarrow>
                  table_rows hasRow (Suc i) rest
                    (res @ s @ write_dashes (length cells + 1) @ ''|'' @ LF)
              | _ \<Rightarrow> Some (Panics interface_conversion))
           else table_rows hasRow (Suc i) rest (res @ s)))"

text \<open>
  \<^verbatim>\<open>BlockToMarkdown\<close>.  The table case renders the rows the service lists, which the
  service decides, so the recursion is bounded by fuel: \<open>None\<close> is a call that has not
  returned within it.
\<close>

fun BlockToMarkdown :: "nat \<Rightarrow> NotionClient \<Rightarrow> Block \<Rightarrow> string result option" where
  "BlockToMarkdown 0 c block = None"
| "BlockToMarkdown (Suc n) c block =
     (case GetType block of
        BlockTypeHeading1 \<Rightarrow> Some (Returns (''# '' @ GetRichTextString block @ LF))
      | BlockTypeParagraph \<Rightarrow> Some (Returns (GetRichTextString block @ LF))
      | BlockTypeHeading2 \<Rightarrow> Some (Returns (''## '' @ GetRichTextString block @ LF))
      | BlockTypeHeading3 \<Rightarrow> Some (Returns (''### '' @ GetRichTextString block @ LF))
      | BlockTypeBulletedListItem \<Rightarrow> Some (Returns (''- '' @ GetRichTextString block @ LF))
      | BlockTypeNumberedListItem \<Rightarrow>
          (case getNumberedListNumber c block of
             Panics p \<Rightarrow> Some (Panics p)
           | Returns num \<Rightarrow>
               Some (Returns (Sprintf_d num @ ''. '' @ GetRichTextString block @ LF)))
      | BlockTypeToggle \<Rightarrow>
          Some (Returns (''::: toggle'' @ LF @ GetRichTextString block @ LF @ '':::'' @ LF))
      | BlockTypeQuote \<Rightarrow> Some (Returns (''> '' @ GetRichTextString block @ LF))
      | BlockTypeCode \<Rightarrow>
          Some (Returns (''```'' @ LF @ GetRichTextString block @ LF @ ''```'' @ LF))
      | BlockTypeTableRowBlock \<Rightarrow>
          (case Dynamic block of
             PtrTableRowBlock cells \<Rightarrow> Some (Returns (''| '' @ write_cells cells @ '' |'' @ LF))
           | _ \<Rightarrow> Some (Panics interface_conversion))
      | BlockTypeTableBlock \<Rightarrow>
          (let ch = Block_GetChildren c (GetID block) empty_Pagination in
           case Dynamic block of
             PtrTableBlock hasRow \<Rightarrow>
               (case ch of
                  Inl err \<Rightarrow> Some (Panics nil_dereference)
                | Inr resp \<Rightarrow>
                    table_rows hasRow 0
                      (map (\<lambda>temp. (temp, BlockToMarkdown n c temp)) (Results resp)) [])
           | _ \<Rightarrow> Some (Panics interface_conversion))
      | BlockTypeDivider \<Rightarrow> Some (Returns (''---'' @ LF))
      | BlockTypeVideo \<Rightarrow>
          (case Dynamic block of
             PtrAudioBlock url \<Rightarrow>
               Some (Returns (''<iframe src='' @ DQ @ url @ DQ @
                 '' width='' @ DQ @ ''300'' @ DQ @ '' height='' @ DQ @ ''200'' @ DQ @
                 '' frameborder='' @ DQ @ ''0'' @ DQ @ '' allowfullscreen></iframe>''))
           | _ \<Rightarrow> Some (Panics interface_conversion))
      | BlockTypeEmbed \<Rightarrow>
          (case Dynamic block of
             EmbedBlock url \<Rightarrow> Some (Returns (''{'' @ url @ ''}''))
           | _ \<Rightarrow> Some (Panics interface_conversion))
      | BlockTypeCallout \<Rightarrow>
          Some (Returns ([CHR 0xE2, CHR 0x9A, CHR 0xA0, CHR 0xEF, CHR 0xB8, CHR 0x8F] @ '' '' @
            GetRichTextString block @ LF))
      | BlockTypeToDo \<Rightarrow>
          (case Dynamic block of
             PtrToDoBlock checked \<Rightarrow>
               (if checked then Some (Returns (''- [x] '' @ GetRichTextString block @ LF))
                else Some (Returns (''- [ ] '' @ GetRichTextString block @ LF)))
           | _ \<Rightarrow> Some (Panics interface_conversion))
      | BlockTypeImage \<Rightarrow>
          (case getImageURL c block of
             Inl err \<Rightarrow> Some (Returns err)
           | Inr url \<Rightarrow> Some (Returns (''![]('' @ url @ '')'' @ LF)))
      | _ \<Rightarrow> Some (Returns []))"

declare BlockToMarkdown.simps(2) [simp del]

section \<open>The tree walker\<close>

text \<open>
  What a call of \<^verbatim>\<open>getBlock\<close> does: it returns its pair (bytes, error) or panics, and
  it has written log entries.
\<close>

type_synonym walk = "(string \<times> string option) result \<times> log_entry list"

text \<open>
  The child loop of \<^verbatim>\<open>getBlock\<close>, over the children's ids paired with what the
  recursive call does for each: an error of the child is logged, and the child's bytes
  are appended in either case.
\<close>

fun append_children :: "(string \<times> walk option) list \<Rightarrow> string \<Rightarrow> log_entry list \<Rightarrow> walk option"
  where
  "append_children [] result lg = Some (Returns (result, None), lg)"
| "append_children ((child_Id, r) # rest) result lg =
     (case r of
        None \<Rightarrow> None
      | Some (Panics p, lg') \<Rightarrow> Some (Panics p, lg @ lg')
      | Some (Returns (buf, err), lg') \<Rightarrow>
          append_children rest (result @ buf)
            (lg @ lg' @
               (case err of
                  None \<Rightarrow> []
                | Some e \<Rightarrow>
                    [logger_Error ''get block child error''
                       [log_String ''block_id'' child_Id, log_Error (Some e)]])))"

fun getBlock :: "nat \<Rightarrow> NotionClient \<Rightarrow> string \<Rightarrow> walk option" where
  "getBlock 0 c block_id = None"
| "getBlock (Suc n) c block_id =
     (case Block_Get c block_id of
        Inl err \<Rightarrow>
          Some (Returns ([], Some (''get block '' @ block_id @ '' error: '' @ err)),
                [logger_Error ''get block error'' [log_String ''block_id'' block_id, log_Error (Some err)]])
      | Inr b \<Rightarrow>
          if GetType b = BlockTypeUnsupported then
            Some (Returns ([], None),
                  [logger_Error ''get block error''
                     [log_String ''block_id'' block_id, log_Error None,
                      log_String ''block_type'' (BlockType_String (GetType b))]])
          else
            (let lg = [logger_Info ''block''
                         [log_String ''block_id'' block_id,
                          log_String ''block_type'' (BlockType_String (GetType b))]] in
             if \<not> GetHasChildren b then
               (case BlockToMarkdown (Suc n) c b of
                  None \<Rightarrow> None
                | Some (Panics p) \<Rightarrow> Some (Panics p, lg)
                | Some (Returns s) \<Rightarrow> Some (Returns (s, None), lg))
             else
               (case Block_GetChildren c block_id empty_Pagination of
                  Inl err \<Rightarrow>
                    Some (Returns ([], Some (''get block'' @ [CHR 0x27] @ ''s children '' @ block_id @
                                             '' error: '' @ err)),
                          lg @ [logger_Error (''get block'' @ [CHR 0x27] @ ''s children error'')
                                  [log_String ''block_id'' block_id, log_Error (Some err)]])
                | Inr childerns \<Rightarrow>
                    append_children
                      (map (\<lambda>childern. (GetID childern, getBlock n c (GetID childern)))
                         (Results childerns))
                      [] lg)))"

declare getBlock.simps(2) [simp del]

section \<open>The page assembler\<close>

type_synonym 'a logged = "'a result \<times> log_entry list"

definition getPageContent :: "nat \<Rightarrow> NotionClient \<Rightarrow> PageInfo
    \<Rightarrow> (Page option \<times> string option) logged option" where
  "getPageContent n c P =
     (case getBlock n c (PageInfo_Id P) of
        None \<Rightarrow> None
      | Some (Panics p, lg) \<Rightarrow> Some (Panics p, lg)
      | Some (Returns (buf, Some err), lg) \<Rightarrow>
          Some (Returns (None, Some (''get Page '' @ PageInfo_Id P @ '' error: '' @ err)), lg)
      | Some (Returns (buf, None), lg) \<Rightarrow>
          Some (Returns (Some \<lparr>Page_ID = PageInfo_Id P, Page_Title = PageInfo_Title P,
                               Page_Content = buf\<rparr>, None), lg))"

text \<open>The loop of \<^verbatim>\<open>GetPagesContent\<close>, with its \<open>result\<close> slice.\<close>

fun pages_loop :: "nat \<Rightarrow> NotionClient \<Rightarrow> PageInfo list \<Rightarrow> Page list \<Rightarrow> log_entry list
    \<Rightarrow> (Page list \<times> string option) logged option" where
  "pages_loop n c [] result lg = Some (Returns (result, None), lg)"
| "pages_loop n c (page # rest) result lg =
     (case getPageContent n c page of
        None \<Rightarrow> None
      | Some (Panics p, lg') \<Rightarrow> Some (Panics p, lg @ lg')
      | Some (Returns (res, Some err), lg') \<Rightarrow>
          Some (Returns ([], Some (''get Pages '' @ PageInfo_Id page @ '' error: '' @ err)),
                lg @ lg')
      | Some (Returns (None, None), lg') \<Rightarrow> Some (Panics nil_dereference, lg @ lg')
      | Some (Returns (Some res, None), lg') \<Rightarrow>
          pages_loop n c rest (result @ [res]) (lg @ lg'))"

definition GetPagesContent :: "nat \<Rightarrow> NotionClient \<Rightarrow> PageInfo list
    \<Rightarrow> (Page list \<times> string option) logged option" where
  "GetPagesContent n c Pages = pages_loop n c Pages [] []"

section \<open>Search\<close>

text \<open>The title of a page object: lines 71 to 80 of the module.\<close>

definition page_title :: "NotionPage \<Rightarrow> string" where
  "page_title page =
     (case Properties page ''title'' of
        Some (PtrTitleProperty t) \<Rightarrow> (if length t > 0 then PlainText (t ! 0) else [])
      | _ \<Rightarrow>
          (case Properties page ''Name'' of
             Some (PtrTitleProperty t) \<Rightarrow> (if length t > 0 then PlainText (t ! 0) else [])
           | _ \<Rightarrow> []))"

text \<open>The switch on the object's kind: the \<open>id\<close> and the \<open>title\<close> it assigns.\<close>

definition object_id_title :: "Object \<Rightarrow> (string \<times> string) result" where
  "object_id_title page =
     (if GetObject page = ''page'' then
        (case ObjectDynamic page of
           PtrPage p \<Rightarrow> Returns (NotionPage_ID p, page_title p)
         | _ \<Rightarrow> Panics interface_conversion)
      else if GetObject page = ''block'' then
        (case ObjectDynamic page of
           IsBlock b \<Rightarrow> Returns (GetID b, [])
         | _ \<Rightarrow> Panics interface_conversion)
      else if GetObject page = ''database'' then
        (case ObjectDynamic page of
           PtrDatabase d \<Rightarrow> Returns (Database_ID d, [])
         | _ \<Rightarrow> Panics interface_conversion)
      else Returns ([], []))"

fun list_loop :: "Object list \<Rightarrow> PageInfo list \<Rightarrow> PageInfo list result" where
  "list_loop [] result = Returns result"
| "list_loop (page # rest) result =
     (case object_id_title page of
        Panics p \<Rightarrow> Panics p
      | Returns (page_id, title) \<Rightarrow>
          (if title \<noteq> [] then
             list_loop rest (result @ [\<lparr>PageInfo_Id = page_id, PageInfo_Title = title\<rparr>])
           else list_loop rest result))"

definition GetList :: "NotionClient \<Rightarrow> string \<Rightarrow> (PageInfo list \<times> string option) result" where
  "GetList c titleContain =
     (case Search_Do c \<lparr>Query = titleContain,
                        Filter = \<lparr>Filter_Value = ''page'', Filter_Property = ''object''\<rparr>\<rparr> of
        Inl err \<Rightarrow> Returns ([], Some err)
      | Inr res \<Rightarrow>
          (case list_loop res [] of
             Panics p \<Rightarrow> Panics p
           | Returns result \<Rightarrow> Returns (result, None)))"

section \<open>Observing a call\<close>

text \<open>The bytes and the error of a call of \<^verbatim>\<open>getBlock\<close> that returned.\<close>

fun returned :: "walk option \<Rightarrow> bool" where
  "returned (Some (Returns r, lg)) = True"
| "returned w = False"

fun bytes_of :: "walk option \<Rightarrow> string" where
  "bytes_of (Some (Returns (buf, err), lg)) = buf"
| "bytes_of w = []"

fun error_of :: "walk option \<Rightarrow> string option" where
  "error_of (Some (Returns (buf, err), lg)) = err"
| "error_of w = None"

fun log_of :: "('a result \<times> log_entry list) option \<Rightarrow> log_entry list" where
  "log_of (Some (r, lg)) = lg"
| "log_of None = []"

fun value_of :: "('a result \<times> log_entry list) option \<Rightarrow> 'a option" where
  "value_of (Some (Returns v, lg)) = Some v"
| "value_of w = None"

section \<open>The complete children listing\<close>

text \<open>
  The listing the specification speaks of: the children endpoint called again with each
  continuation cursor until the service reports no more.  The service decides how many
  pages there are, so the loop is bounded by fuel.
\<close>

fun drain_children :: "nat \<Rightarrow> NotionClient \<Rightarrow> string \<Rightarrow> Pagination \<Rightarrow> (string + Block list) option"
  where
  "drain_children 0 c block_id p = None"
| "drain_children (Suc k) c block_id p =
     (case Block_GetChildren c block_id p of
        Inl err \<Rightarrow> Some (Inl err)
      | Inr resp \<Rightarrow>
          if HasMore resp then
            (case drain_children k c block_id (p\<lparr>StartCursor := NextCursor resp\<rparr>) of
               None \<Rightarrow> None
             | Some (Inl err) \<Rightarrow> Some (Inl err)
             | Some (Inr rest) \<Rightarrow> Some (Inr (Results resp @ rest)))
          else Some (Inr (Results resp)))"

section \<open>Notions the properties are stated with\<close>

text \<open>
  The numbered-list items strictly before the first entry with the target's id, and the
  numbered-list items of a whole listing.
\<close>

definition numbered_before :: "string \<Rightarrow> Block list \<Rightarrow> nat" where
  "numbered_before target xs =
     length (filter (\<lambda>ch. GetType ch = BlockTypeNumberedListItem)
               (takeWhile (\<lambda>ch. GetID ch \<noteq> target) xs))"

definition numbered_total :: "Block list \<Rightarrow> nat" where
  "numbered_total xs = length (filter (\<lambda>ch. GetType ch = BlockTypeNumberedListItem) xs)"

text \<open>What one child adds to the log of its parent's call.\<close>

definition child_log :: "string \<times> walk option \<Rightarrow> log_entry list" where
  "child_log x =
     log_of (snd x) @
     (case error_of (snd x) of
        None \<Rightarrow> []
      | Some e \<Rightarrow>
          [logger_Error ''get block child error''
             [log_String ''block_id'' (fst x), log_Error (Some e)]])"



text \<open>A table row as the library decodes it, its cells, and its line of markdown.\<close>

definition row_cells :: "Block \<Rightarrow> RichText list list" where
  "row_cells b = (case Dynamic b of PtrTableRowBlock cells \<Rightarrow> cells | _ \<Rightarrow> [])"

definition is_table_row :: "Block \<Rightarrow> bool" where
  "is_table_row b =
     (GetType b = BlockTypeTableRowBlock \<and>
      (case Dynamic b of PtrTableRowBlock cells \<Rightarrow> True | _ \<Rightarrow> False))"

definition row_text :: "Block \<Rightarrow> string" where
  "row_text b = ''| '' @ write_cells (row_cells b) @ '' |'' @ LF"

text \<open>The page a reference yields, and a traversal that returned without an error.\<close>

definition page_of :: "nat \<Rightarrow> NotionClient \<Rightarrow> PageInfo \<Rightarrow> Page" where
  "page_of n c P =
     \<lparr>Page_ID = PageInfo_Id P, Page_Title = PageInfo_Title P,
      Page_Content = bytes_of (getBlock n c (PageInfo_Id P))\<rparr>"

definition traversal_ok :: "nat \<Rightarrow> NotionClient \<Rightarrow> PageInfo \<Rightarrow> bool" where
  "traversal_ok n c P =
     (returned (getBlock n c (PageInfo_Id P)) \<and> error_of (getBlock n c (PageInfo_Id P)) = None)"

text \<open>
  The id and the title the search loop assigns to an object; an object, and a block, whose
  dynamic type is the one the library decodes for its kind; the request of \<^verbatim>\<open>GetList\<close>.
\<close>

definition id_of :: "Object \<Rightarrow> string" where
  "id_of obj = (case object_id_title obj of Returns (i, t) \<Rightarrow> i | Panics p \<Rightarrow> [])"

definition title_of :: "Object \<Rightarrow> string" where
  "title_of obj = (case object_id_title obj of Returns (i, t) \<Rightarrow> t | Panics p \<Rightarrow> [])"

definition decoded_object :: "Object \<Rightarrow> bool" where
  "decoded_object obj =
     (if GetObject obj = ''page'' then
        (case ObjectDynamic obj of PtrPage p \<Rightarrow> True | _ \<Rightarrow> False)
      else if GetObject obj = ''block'' then
        (case ObjectDynamic obj of IsBlock b \<Rightarrow> True | _ \<Rightarrow> False)
      else if GetObject obj = ''database'' then
        (case ObjectDynamic obj of PtrDatabase d \<Rightarrow> True | _ \<Rightarrow> False)
      else True)"

definition search_request :: "string \<Rightarrow> SearchRequest" where
  "search_request titleContain =
     \<lparr>Query = titleContain,
      Filter = \<lparr>Filter_Value = ''page'', Filter_Property = ''object''\<rparr>\<rparr>"

definition decoded :: "Block \<Rightarrow> bool" where
  "decoded b =
     (case GetType b of
        BlockTypeTableRowBlock \<Rightarrow> (case Dynamic b of PtrTableRowBlock cells \<Rightarrow> True | _ \<Rightarrow> False)
      | BlockTypeTableBlock \<Rightarrow> (case Dynamic b of PtrTableBlock h \<Rightarrow> True | _ \<Rightarrow> False)
      | BlockTypeVideo \<Rightarrow> (case Dynamic b of PtrVideoBlock u \<Rightarrow> True | _ \<Rightarrow> False)
      | BlockTypeEmbed \<Rightarrow> (case Dynamic b of PtrEmbedBlock u \<Rightarrow> True | _ \<Rightarrow> False)
      | BlockTypeToDo \<Rightarrow> (case Dynamic b of PtrToDoBlock ck \<Rightarrow> True | _ \<Rightarrow> False)
      | _ \<Rightarrow> True)"

section \<open>A service over a finite store\<close>

text \<open>
  A client for concrete runs: the blocks of a list, each listed under the block its
  parent reference names, \<open>k\<close> children to a page; the continuation cursor is the id of
  the next page's first block.  Nothing else is reachable.
\<close>

definition mk_block :: "string \<Rightarrow> BlockType \<Rightarrow> bool \<Rightarrow> string \<Rightarrow> string \<Rightarrow> Concrete \<Rightarrow> Block" where
  "mk_block i t h parent txt d =
     \<lparr>GetID = i, GetType = t, GetHasChildren = h,
      GetParent = Some \<lparr>Parent_PageID = [], Parent_BlockID = parent\<rparr>,
      GetRichTextString = txt, Dynamic = d\<rparr>"

definition store_Get :: "Block list \<Rightarrow> string \<Rightarrow> string + Block" where
  "store_Get store i =
     (case find (\<lambda>b. GetID b = i) store of
        None \<Rightarrow> Inl ''object not found''
      | Some b \<Rightarrow> Inr b)"

definition store_GetChildren :: "nat \<Rightarrow> Block list \<Rightarrow> string \<Rightarrow> Pagination
    \<Rightarrow> string + GetChildrenResponse" where
  "store_GetChildren k store i p =
     (case find (\<lambda>b. GetID b = i) store of
        None \<Rightarrow> Inl ''object not found''
      | Some b \<Rightarrow>
          (let cs = filter (\<lambda>ch. map_option Parent_BlockID (GetParent ch) = Some i) store;
               from = (if StartCursor p = [] then cs
                       else dropWhile (\<lambda>ch. GetID ch \<noteq> StartCursor p) cs);
               rest = drop k from
           in Inr \<lparr>Results = take k from,
                   NextCursor = (case rest of [] \<Rightarrow> [] | ch # chs \<Rightarrow> GetID ch),
                   HasMore = (rest \<noteq> [])\<rparr>))"

definition offline :: NotionClient where
  "offline =
     \<lparr>token = ''secret'',
      Block_Get = (\<lambda>i. Inl ''object not found''),
      Block_GetChildren = (\<lambda>i p. Inl ''object not found''),
      Search_Do = (\<lambda>r. Inl ''no route to host''),
      NewRequest = (\<lambda>m u. Inr \<lparr>Request_Method = m, Request_URL = u, Request_Header = []\<rparr>),
      Do = (\<lambda>r. Inl ''no route to host''),
      Decode = (\<lambda>s. Inl ''unexpected end of JSON input'')\<rparr>"

definition store_client :: "nat \<Rightarrow> Block list \<Rightarrow> NotionClient" where
  "store_client k store =
     offline\<lparr>Block_Get := store_Get store, Block_GetChildren := store_GetChildren k store\<rparr>"

text \<open>The documents of the concrete runs.\<close>

definition cell :: "string \<Rightarrow> RichText list" where
  "cell s = [\<lparr>PlainText = s\<rparr>]"

definition list_doc :: "Block list" where
  "list_doc =
     [mk_block ''p'' (BlockTypeOther ''child_page'') True [] [] OtherBlock,
      mk_block ''a'' BlockTypeNumberedListItem False ''p'' ''A'' OtherBlock,
      mk_block ''t'' BlockTypeParagraph False ''p'' ''text'' OtherBlock,
      mk_block ''b'' BlockTypeNumberedListItem False ''p'' ''B'' OtherBlock,
      mk_block ''c'' BlockTypeNumberedListItem False ''p'' ''C'' OtherBlock]"

definition short_doc :: "Block list" where
  "short_doc =
     [mk_block ''p'' (BlockTypeOther ''child_page'') True [] [] OtherBlock,
      mk_block ''t'' BlockTypeParagraph False ''p'' ''text'' OtherBlock,
      mk_block ''n'' BlockTypeNumberedListItem False ''p'' ''N'' OtherBlock]"

definition table_doc :: "Block list" where
  "table_doc =
     [mk_block ''tb'' BlockTypeTableBlock True [] [] (PtrTableBlock True),
      mk_block ''r0'' BlockTypeTableRowBlock False ''tb'' []
        (PtrTableRowBlock [cell ''H1'', cell ''H2'', cell ''H3'']),
      mk_block ''r1'' BlockTypeTableRowBlock False ''tb'' []
        (PtrTableRowBlock [cell ''a'', [], cell ''c'']),
      mk_block ''r2'' BlockTypeTableRowBlock False ''tb'' []
        (PtrTableRowBlock [cell ''d'', cell ''e'', cell ''f''])]"





definition walk_doc :: "Block list" where
  "walk_doc =
     [mk_block ''p'' BlockTypeToggle True [] ''T'' OtherBlock,
      mk_block ''u'' BlockTypeUnsupported True ''p'' [] OtherBlock,
      mk_block ''x'' BlockTypeParagraph False ''u'' ''X'' OtherBlock,
      mk_block ''q'' BlockTypeParagraph False ''p'' ''Q'' OtherBlock]"

definition sibling_doc :: "Block list" where
  "sibling_doc =
     [mk_block ''p'' (BlockTypeOther ''child_page'') True [] [] OtherBlock,
      mk_block ''s1'' BlockTypeParagraph False ''p'' ''one'' OtherBlock,
      mk_block ''s2'' BlockTypeParagraph False ''p'' ''two'' OtherBlock,
      mk_block ''s3'' BlockTypeParagraph False ''p'' ''three'' OtherBlock]"

text \<open>The service of \<open>sibling_doc\<close>, failing to fetch the block \<open>s2\<close>.\<close>

definition flaky_client :: NotionClient where
  "flaky_client =
     (store_client 100 sibling_doc)
       \<lparr>Block_Get := (\<lambda>i. if i = ''s2'' then Inl ''timeout'' else store_Get sibling_doc i)\<rparr>"

text \<open>A children endpoint that answers the request without a cursor only.\<close>

definition no_cursor :: "(string \<Rightarrow> Pagination \<Rightarrow> string + GetChildrenResponse)
    \<Rightarrow> string \<Rightarrow> Pagination \<Rightarrow> string + GetChildrenResponse" where
  "no_cursor f i p =
     (if StartCursor p = [] \<and> PageSize p = 0 then f i p else Inl ''invalid cursor'')"

definition page_refs :: "PageInfo list" where
  "page_refs = [\<lparr>PageInfo_Id = ''p'', PageInfo_Title = ''Numbers''\<rparr>,
                \<lparr>PageInfo_Id = ''t'', PageInfo_Title = ''Text''\<rparr>]"

definition missing_ref :: PageInfo where
  "missing_ref = \<lparr>PageInfo_Id = ''gone'', PageInfo_Title = ''Gone''\<rparr>"

definition roadmap :: Object where
  "roadmap =
     \<lparr>GetObject = ''page'',
      ObjectDynamic = PtrPage \<lparr>NotionPage_ID = ''pg'',
        Properties = [''title'' \<mapsto> PtrTitleProperty [\<lparr>PlainText = ''Roadmap''\<rparr>]]\<rparr>\<rparr>"

definition untitled_block :: Object where
  "untitled_block =
     \<lparr>GetObject = ''block'',
      ObjectDynamic = IsBlock (mk_block ''bk'' BlockTypeParagraph False ''pg'' ''Road'' OtherBlock)\<rparr>"

definition road_trips :: Object where
  "road_trips =
     \<lparr>GetObject = ''database'',
      ObjectDynamic = PtrDatabase \<lparr>Database_ID = ''db'',
        Database_Title = [\<lparr>PlainText = ''Road Trips''\<rparr>]\<rparr>\<rparr>"

definition named_page :: Object where
  "named_page =
     \<lparr>GetObject = ''page'',
      ObjectDynamic = PtrPage \<lparr>NotionPage_ID = ''nm'',
        Properties = [''Name'' \<mapsto> PtrTitleProperty [\<lparr>PlainText = ''Roads''\<rparr>, \<lparr>PlainText = '' and more''\<rparr>],
                      ''Tags'' \<mapsto> OtherProperty]\<rparr>\<rparr>"

definition search_client :: "Object list \<Rightarrow> NotionClient" where
  "search_client res =
     offline\<lparr>Search_Do := (\<lambda>r. if r = search_request ''Road'' then Inr res
                               else Inl ''validation error'')\<rparr>"

definition media_doc :: "Block list" where
  "media_doc =
     [mk_block ''v'' BlockTypeVideo False ''p'' [] (PtrVideoBlock ''https://x/v.mp4''),
      mk_block ''e'' BlockTypeEmbed False ''p'' [] (PtrEmbedBlock ''https://x/e''),
      mk_block ''tb'' BlockTypeTableBlock True ''p'' [] (PtrTableBlock True),
      mk_block ''n'' BlockTypeNumberedListItem False ''p'' ''N'' OtherBlock,
      mk_block ''d'' BlockTypeToDo False ''p'' ''D'' (PtrToDoBlock True),
      mk_block ''z'' (BlockTypeOther ''breadcrumb'') False ''p'' ''Z'' OtherBlock,
      (mk_block ''n0'' BlockTypeNumberedListItem False [] ''N'' OtherBlock)\<lparr>GetParent := None\<rparr>]"

section \<open>Running the model\<close>

lemmas run = store_client_def offline_def store_Get_def store_GetChildren_def mk_block_def
  getNumberedListNumber_def Sprintf_d.simps eval_nat_numeral BlockToMarkdown.simps(2)
  getBlock.simps(2)

section \<open>Fuel\<close>

text \<open>
  A call that returns or panics within some fuel does the same with any more: what the
  renderer and the walker yield does not depend on the bound.
\<close>

lemma table_rows_more:
  assumes "table_rows h i (map (\<lambda>t. (t, f t)) xs) res = Some r"
    and "\<And>t v. t \<in> set xs \<Longrightarrow> f t = Some v \<Longrightarrow> g t = Some v"
  shows "table_rows h i (map (\<lambda>t. (t, g t)) xs) res = Some r"
  using assms
proof (induction xs arbitrary: i res)
  case Nil
  then show ?case by simp
next
  case (Cons x xs)
  from Cons.prems(1) obtain v where v: "f x = Some v"
    by (cases "f x") auto
  with Cons.prems(2) have g: "g x = Some v" by simp
  show ?case
  proof (cases v)
    case (Panics p)
    show ?thesis using Cons.prems(1) by (auto simp: v g Panics)
  next
    case (Returns s)
    show ?thesis using Cons.prems Cons.IH
      by (auto simp: v g Returns split: if_splits Concrete.splits)
  qed
qed

lemma BlockToMarkdown_more:
  "BlockToMarkdown n c b = Some r \<Longrightarrow> BlockToMarkdown (Suc n) c b = Some r"
proof (induction n arbitrary: b r)
  case 0
  then show ?case by simp
next
  case (Suc n)
  show ?case
  proof (cases "GetType b = BlockTypeTableBlock")
    case False
    with Suc.prems show ?thesis
      by (cases "GetType b") (simp_all add: BlockToMarkdown.simps(2) [of _ c b])
  next
    case True
    with Suc.prems show ?thesis
      by (auto simp: BlockToMarkdown.simps(2) [of _ c b] split: Concrete.splits sum.splits
            intro: table_rows_more Suc.IH)
  qed
qed

lemma append_children_more:
  assumes "append_children (map (\<lambda>t. (k t, f t)) xs) res lg = Some r"
    and "\<And>t v. t \<in> set xs \<Longrightarrow> f t = Some v \<Longrightarrow> g t = Some v"
  shows "append_children (map (\<lambda>t. (k t, g t)) xs) res lg = Some r"
  using assms
proof (induction xs arbitrary: res lg)
  case Nil
  then show ?case by simp
next
  case (Cons x xs)
  from Cons.prems(1) obtain v where v: "f x = Some v"
    by (cases "f x") auto
  with Cons.prems(2) have g: "g x = Some v" by simp
  obtain w lg' where w: "v = (w, lg')" by (cases v)
  show ?case
  proof (cases w)
    case (Panics p)
    show ?thesis using Cons.prems(1) by (auto simp: v g w Panics)
  next
    case (Returns s)
    obtain buf err where s: "s = (buf, err)" by (cases s)
    show ?thesis using Cons.prems Cons.IH
      by (auto simp: v g w Returns s)
  qed
qed

lemma getBlock_more:
  "getBlock n c i = Some r \<Longrightarrow> getBlock (Suc n) c i = Some r"
proof (induction n arbitrary: i r)
  case 0
  then show ?case by simp
next
  case (Suc n)
  show ?case
  proof (cases "Block_Get c i")
    case (Inl e)
    with Suc.prems show ?thesis by (simp add: getBlock.simps(2) [of _ c i])
  next
    case (Inr b)
    show ?thesis
    proof (cases "GetType b = BlockTypeUnsupported")
      case True
      with Suc.prems Inr show ?thesis by (simp add: getBlock.simps(2) [of _ c i])
    next
      case False
      note supported = this
      show ?thesis
      proof (cases "GetHasChildren b")
        case False
        with Suc.prems Inr supported obtain v where v: "BlockToMarkdown (Suc n) c b = Some v"
          by (cases "BlockToMarkdown (Suc n) c b") (auto simp: getBlock.simps(2) [of _ c i])
        then have "BlockToMarkdown (Suc (Suc n)) c b = Some v"
          by (rule BlockToMarkdown_more)
        with v Suc.prems Inr supported False show ?thesis
          by (simp add: getBlock.simps(2) [of _ c i])
      next
        case True
        with Suc.prems Inr supported show ?thesis
          by (auto simp: getBlock.simps(2) [of _ c i] Let_def split: sum.splits
                intro: append_children_more Suc.IH)
      qed
    qed
  qed
qed

lemma getBlock_fuel:
  "getBlock n c i = Some r \<Longrightarrow> n \<le> m \<Longrightarrow> getBlock m c i = Some r"
  by (induction m) (auto simp: le_Suc_eq dest: getBlock_more)

section \<open>The numbering helper: properties\<close>

lemma numbered_scan_found:
  "target \<in> GetID ` set xs \<Longrightarrow>
     numbered_scan target xs i = i + 1 + numbered_before target xs"
  by (induction xs arbitrary: i) (auto simp: numbered_before_def)

lemma numbered_scan_absent:
  "target \<notin> GetID ` set xs \<Longrightarrow> numbered_scan target xs i = i + numbered_total xs"
  by (induction xs arbitrary: i) (auto simp: numbered_total_def)

text \<open>
  C4, as the code has it.  A numbered-list item with a parent reference is rendered with
  the ordinal the helper computes from one children request for the block the reference
  names, made with an empty pagination: when the request succeeds and the item's id is
  among the results, the ordinal is 1 plus the number of numbered-list items before it in
  these results (other siblings are not counted); when the request fails, the ordinal
  is 1.
\<close>

theorem numbered_ordinal:
  assumes "GetType block = BlockTypeNumberedListItem"
    and "GetParent block = Some parent"
  shows "(\<forall>resp. Block_GetChildren c (Parent_BlockID parent) empty_Pagination = Inr resp
            \<and> GetID block \<in> GetID ` set (Results resp) \<longrightarrow>
            getNumberedListNumber c block =
              Returns (1 + numbered_before (GetID block) (Results resp)) \<and>
            BlockToMarkdown (Suc n) c block =
              Some (Returns (Sprintf_d (1 + numbered_before (GetID block) (Results resp)) @ ''. '' @
                             GetRichTextString block @ LF)))
       \<and> (\<forall>err. Block_GetChildren c (Parent_BlockID parent) empty_Pagination = Inl err \<longrightarrow>
            getNumberedListNumber c block = Returns 1 \<and>
            BlockToMarkdown (Suc n) c block =
              Some (Returns (''1. '' @ GetRichTextString block @ LF)))"
  using assms
  by (auto simp: BlockToMarkdown.simps(2) getNumberedListNumber_def numbered_scan_found
        Sprintf_d.simps)

theorem numbered_ordinal_witness:
  "BlockToMarkdown 1 (store_client 100 list_doc) (list_doc ! 1) = Some (Returns (''1. A'' @ LF)) \<and>
   BlockToMarkdown 1 (store_client 100 list_doc) (list_doc ! 3) = Some (Returns (''2. B'' @ LF)) \<and>
   BlockToMarkdown 1 (store_client 100 list_doc) (list_doc ! 4) = Some (Returns (''3. C'' @ LF)) \<and>
   BlockToMarkdown 1 offline (list_doc ! 4) = Some (Returns (''1. C'' @ LF))"
  using numbered_ordinal [of "list_doc ! 1" "\<lparr>Parent_PageID = [], Parent_BlockID = ''p''\<rparr>"
      "store_client 100 list_doc" 0]
    numbered_ordinal [of "list_doc ! 3" "\<lparr>Parent_PageID = [], Parent_BlockID = ''p''\<rparr>"
      "store_client 100 list_doc" 0]
    numbered_ordinal [of "list_doc ! 4" "\<lparr>Parent_PageID = [], Parent_BlockID = ''p''\<rparr>"
      "store_client 100 list_doc" 0]
    numbered_ordinal [of "list_doc ! 4" "\<lparr>Parent_PageID = [], Parent_BlockID = ''p''\<rparr>"
      offline 0]
  by (simp add: run list_doc_def numbered_before_def)

text \<open>
  C4 as stated fails: served two children to a page, the parent \<open>p\<close> has the complete
  listing \<open>a, t, b, c\<close>, in which two numbered items come before \<open>c\<close>; the helper sees
  the first page only, does not find \<open>c\<close> there, and numbers it 1, not 3.
\<close>

theorem numbered_ordinal_counterexample:
  "drain_children 3 (store_client 2 list_doc) ''p'' empty_Pagination = Some (Inr (tl list_doc)) \<and>
   GetType (list_doc ! 4) = BlockTypeNumberedListItem \<and>
   GetID (list_doc ! 4) = ''c'' \<and>
   1 + numbered_before ''c'' (tl list_doc) = 3 \<and>
   getNumberedListNumber (store_client 2 list_doc) (list_doc ! 4) = Returns 1 \<and>
   getNumberedListNumber (store_client 2 list_doc) (list_doc ! 4) \<noteq>
     Returns (1 + numbered_before ''c'' (tl list_doc)) \<and>
   BlockToMarkdown 1 (store_client 2 list_doc) (list_doc ! 4) = Some (Returns (''1. C'' @ LF))"
  by (simp add: run list_doc_def numbered_before_def)

text \<open>
  C10.  When the children request succeeds and the item's id is not among its results,
  the helper returns the number of numbered-list items in these results: not a position,
  and not the default 1.  It can be 0.
\<close>

theorem numbered_absent:
  assumes "GetParent block = Some parent"
    and "Block_GetChildren c (Parent_BlockID parent) empty_Pagination = Inr resp"
    and "GetID block \<notin> GetID ` set (Results resp)"
  shows "getNumberedListNumber c block = Returns (numbered_total (Results resp))"
  using assms by (simp add: getNumberedListNumber_def numbered_scan_absent)

theorem numbered_absent_witness:
  "getNumberedListNumber (store_client 1 short_doc) (short_doc ! 2) = Returns 0 \<and>
   BlockToMarkdown 1 (store_client 1 short_doc) (short_doc ! 2) = Some (Returns (''0. N'' @ LF)) \<and>
   getNumberedListNumber (store_client 2 list_doc) (list_doc ! 4) = Returns 1"
proof -
  have "getNumberedListNumber (store_client 1 short_doc) (short_doc ! 2) =
          Returns (numbered_total
            (Results \<lparr>Results = [short_doc ! 1], NextCursor = ''n'', HasMore = True\<rparr>))"
    by (rule numbered_absent [where parent = "\<lparr>Parent_PageID = [], Parent_BlockID = ''p''\<rparr>"])
       (simp_all add: run short_doc_def)
  moreover have "getNumberedListNumber (store_client 2 list_doc) (list_doc ! 4) =
          Returns (numbered_total
            (Results \<lparr>Results = [list_doc ! 1, list_doc ! 2], NextCursor = ''b'',
                      HasMore = True\<rparr>))"
    by (rule numbered_absent [where parent = "\<lparr>Parent_PageID = [], Parent_BlockID = ''p''\<rparr>"])
       (simp_all add: run list_doc_def)
  ultimately show ?thesis
    by (simp add: numbered_total_def short_doc_def list_doc_def mk_block_def
          BlockToMarkdown.simps(2) Sprintf_d.simps eval_nat_numeral)
qed

section \<open>The image lookup: properties\<close>




section \<open>Tables: properties\<close>

lemma BlockToMarkdown_row:
  "is_table_row r \<Longrightarrow> BlockToMarkdown (Suc n) c r = Some (Returns (row_text r))"
  by (auto simp: BlockToMarkdown.simps(2) is_table_row_def row_text_def row_cells_def
        split: Concrete.splits)

lemma table_rows_rest:
  "table_rows hasRow (Suc i) (map (\<lambda>r. (r, Some (Returns (f r)))) rows) res =
     Some (Returns (res @ concat (map f rows)))"
  by (induction rows arbitrary: i res) auto

lemma write_dashes_replicate: "write_dashes k = concat (replicate k ''| ---'')"
  by (induction k) auto

text \<open>
  C5.  A table block with the header flag set, whose children request yields the table
  rows \<open>row # rows\<close>, is rendered as the line of \<open>row\<close>, then the separator: the group
  \<^verbatim>\<open>| ---\<close> once more than \<open>row\<close> has cells, closed by \<^verbatim>\<open>|\<close> and a newline; then the
  lines of \<open>rows\<close> in their order.
\<close>

theorem table_header_separator:
  assumes "GetType block = BlockTypeTableBlock"
    and "Dynamic block = PtrTableBlock True"
    and "Block_GetChildren c (GetID block) empty_Pagination = Inr resp"
    and "Results resp = row # rows"
    and "\<forall>r \<in> set (row # rows). is_table_row r"
  shows "BlockToMarkdown (Suc (Suc n)) c block =
           Some (Returns (row_text row @
                          concat (replicate (length (row_cells row) + 1) ''| ---'') @ ''|'' @ LF @
                          concat (map row_text rows)))"
proof -
  have all: "map (\<lambda>temp. (temp, BlockToMarkdown (Suc n) c temp)) (row # rows) =
             map (\<lambda>r. (r, Some (Returns (row_text r)))) (row # rows)"
    using assms(5) by (simp add: BlockToMarkdown_row)
  obtain cells where cells: "Dynamic row = PtrTableRowBlock cells"
    using assms(5) by (auto simp: is_table_row_def split: Concrete.splits)
  have "BlockToMarkdown (Suc (Suc n)) c block =
          table_rows True 0 (map (\<lambda>temp. (temp, BlockToMarkdown (Suc n) c temp)) (row # rows)) []"
    using assms(1-4) by (simp add: BlockToMarkdown.simps(2) [of "Suc n" c block])
  also have "\<dots> = table_rows True 0 (map (\<lambda>r. (r, Some (Returns (row_text r)))) (row # rows)) []"
    by (simp only: all)
  also have "\<dots> = Some (Returns (row_text row @ write_dashes (length cells + 1) @ ''|'' @ LF @
                          concat (map row_text rows)))"
    using cells by (simp add: table_rows_rest del: write_dashes.simps)
  finally show ?thesis
    using cells
    by (simp add: write_dashes_replicate row_cells_def del: write_dashes.simps replicate.simps)
qed

theorem table_header_separator_witness:
  "BlockToMarkdown 2 (store_client 100 table_doc) (table_doc ! 0) =
     Some (Returns (''| H1 | H2 | H3 |'' @ LF @ ''| ---| ---| ---| ---|'' @ LF @
                    ''| a |  | c |'' @ LF @ ''| d | e | f |'' @ LF))"
proof -
  have "BlockToMarkdown (Suc (Suc 0)) (store_client 100 table_doc) (table_doc ! 0) =
           Some (Returns (row_text (table_doc ! 1) @
                          concat (replicate (length (row_cells (table_doc ! 1)) + 1) ''| ---'') @
                          ''|'' @ LF @
                          concat (map row_text [table_doc ! 2, table_doc ! 3])))"
    by (rule table_header_separator
          [where resp = "\<lparr>Results = tl table_doc, NextCursor = [], HasMore = False\<rparr>"])
       (simp_all add: store_client_def offline_def store_GetChildren_def mk_block_def
          table_doc_def is_table_row_def)
  then show ?thesis
    by (simp add: table_doc_def mk_block_def row_text_def row_cells_def cell_def
          eval_nat_numeral)
qed

section \<open>The tree walker: properties\<close>

lemma returned_cases:
  "returned w \<Longrightarrow> \<exists>buf err lg. w = Some (Returns (buf, err), lg)"
  by (cases w rule: returned.cases) auto

lemma append_children_error_None:
  "append_children rs res lg = Some (Returns (buf, err), lg') \<Longrightarrow> err = None"
  by (induction rs arbitrary: res lg) (auto split: option.splits result.splits)

lemma getBlock_error_empty:
  "getBlock n c i = Some (Returns (buf, Some e), lg) \<Longrightarrow> buf = []"
proof (cases n)
  case 0
  then show "getBlock n c i = Some (Returns (buf, Some e), lg) \<Longrightarrow> buf = []" by simp
next
  case (Suc m)
  assume "getBlock n c i = Some (Returns (buf, Some e), lg)"
  then show "buf = []"
    unfolding Suc getBlock.simps(2)
    by (auto simp: Let_def split: sum.splits if_splits option.splits result.splits
          dest: append_children_error_None)
qed

lemma append_children_returned:
  "\<forall>x \<in> set rs. returned (snd x) \<Longrightarrow>
     append_children rs res lg =
       Some (Returns (res @ concat (map (\<lambda>x. bytes_of (snd x)) rs), None),
             lg @ concat (map child_log rs))"
proof (induction rs arbitrary: res lg)
  case Nil
  then show ?case by simp
next
  case (Cons x rs)
  obtain i r where x: "x = (i, r)" by (cases x)
  from Cons.prems x have "returned r" by simp
  then obtain buf err lg' where r: "r = Some (Returns (buf, err), lg')"
    using returned_cases by blast
  from Cons.prems have "\<forall>x \<in> set rs. returned (snd x)" by simp
  from Cons.IH [OF this] show ?case
    by (simp add: x r child_log_def split: option.splits)
qed


lemma getBlock_children:
  assumes "Block_Get c block_id = Inr b" and "GetType b \<noteq> BlockTypeUnsupported"
    and "GetHasChildren b"
    and "Block_GetChildren c block_id empty_Pagination = Inr resp"
    and "\<forall>ch \<in> set (Results resp). returned (getBlock n c (GetID ch))"
  shows "getBlock (Suc n) c block_id =
           Some (Returns (concat (map (\<lambda>ch. bytes_of (getBlock n c (GetID ch))) (Results resp)), None),
                 [logger_Info ''block''
                    [log_String ''block_id'' block_id,
                     log_String ''block_type'' (BlockType_String (GetType b))]] @
                 concat (map (\<lambda>ch. child_log (GetID ch, getBlock n c (GetID ch))) (Results resp)))"
proof -
  let ?rs = "map (\<lambda>childern. (GetID childern, getBlock n c (GetID childern))) (Results resp)"
  have "\<forall>x \<in> set ?rs. returned (snd x)"
    using assms(5) by simp
  from append_children_returned [OF this]
  show ?thesis
    using assms(1-4) by (simp add: getBlock.simps(2) comp_def)
qed

text \<open>
  C1, as the code has it.  For a block that is fetched: when its kind is unsupported the
  walker returns nothing and lists no children; when it has no children the walker
  returns the renderer's fragment for it; when it has children, one children request is
  made and the output ends with the children's own outputs, each produced by the walker,
  in the order of the response.
\<close>

theorem walker_output:
  assumes "Block_Get c block_id = Inr b"
  shows "(GetType b = BlockTypeUnsupported \<longrightarrow>
            value_of (getBlock (Suc n) c block_id) = Some ([], None))
       \<and> (GetType b \<noteq> BlockTypeUnsupported \<and> \<not> GetHasChildren b \<longrightarrow>
            (\<forall>s. BlockToMarkdown (Suc n) c b = Some (Returns s) \<longrightarrow>
               value_of (getBlock (Suc n) c block_id) = Some (s, None)))
       \<and> (GetType b \<noteq> BlockTypeUnsupported \<and> GetHasChildren b \<longrightarrow>
            (\<forall>resp. Block_GetChildren c block_id empty_Pagination = Inr resp \<and>
                (\<forall>ch \<in> set (Results resp). returned (getBlock n c (GetID ch))) \<longrightarrow>
                (\<exists>own. value_of (getBlock (Suc n) c block_id) =
                   Some (own @ concat (map (\<lambda>ch. bytes_of (getBlock n c (GetID ch))) (Results resp)),
                         None))))"
proof (intro conjI impI allI)
  assume "GetType b = BlockTypeUnsupported"
  then show "value_of (getBlock (Suc n) c block_id) = Some ([], None)"
    using assms by (simp add: getBlock.simps(2))
next
  fix s
  assume "GetType b \<noteq> BlockTypeUnsupported \<and> \<not> GetHasChildren b"
    and "BlockToMarkdown (Suc n) c b = Some (Returns s)"
  then show "value_of (getBlock (Suc n) c block_id) = Some (s, None)"
    using assms by (simp add: getBlock.simps(2))
next
  fix resp
  assume "GetType b \<noteq> BlockTypeUnsupported \<and> GetHasChildren b"
    and "Block_GetChildren c block_id empty_Pagination = Inr resp \<and>
         (\<forall>ch \<in> set (Results resp). returned (getBlock n c (GetID ch)))"
  then have "value_of (getBlock (Suc n) c block_id) =
      Some ([] @ concat (map (\<lambda>ch. bytes_of (getBlock n c (GetID ch))) (Results resp)), None)"
    using assms by (simp add: getBlock_children)
  then show "\<exists>own. value_of (getBlock (Suc n) c block_id) =
      Some (own @ concat (map (\<lambda>ch. bytes_of (getBlock n c (GetID ch))) (Results resp)), None)"
    by blast
qed

theorem walker_output_witness:
  "value_of (getBlock 1 (store_client 100 walk_doc) ''u'') = Some ([], None) \<and>
   value_of (getBlock 1 (store_client 100 walk_doc) ''q'') = Some (''Q'' @ LF, None) \<and>
   (\<exists>own. value_of (getBlock 2 (store_client 100 list_doc) ''p'') =
      Some (own @ ''1. A'' @ LF @ ''text'' @ LF @ ''2. B'' @ LF @ ''3. C'' @ LF, None))"
proof -
  let ?w = "store_client 100 walk_doc"
  let ?l = "store_client 100 list_doc"
  have u: "Block_Get ?w ''u'' = Inr (walk_doc ! 1)"
    and q: "Block_Get ?w ''q'' = Inr (walk_doc ! 3)"
    by (simp_all add: run walk_doc_def)
  have p: "Block_Get ?l ''p'' = Inr (list_doc ! 0)"
    by (simp add: run list_doc_def)
  have kids: "Block_GetChildren ?l ''p'' empty_Pagination =
      Inr \<lparr>Results = tl list_doc, NextCursor = [], HasMore = False\<rparr>"
    by (simp add: run list_doc_def)
  have ret: "\<forall>ch \<in> set (tl list_doc). returned (getBlock 1 ?l (GetID ch))"
    by (simp add: run list_doc_def)
  have "value_of (getBlock (Suc 0) ?w ''u'') = Some ([], None)"
    using walker_output [OF u, of 0] by (simp add: walk_doc_def mk_block_def)
  moreover have "value_of (getBlock (Suc 0) ?w ''q'') = Some (''Q'' @ LF, None)"
    using walker_output [OF q, of 0]
    by (simp add: walk_doc_def mk_block_def BlockToMarkdown.simps(2))
  moreover have "\<exists>own. value_of (getBlock (Suc 1) ?l ''p'') =
      Some (own @ concat (map (\<lambda>ch. bytes_of (getBlock 1 ?l (GetID ch))) (tl list_doc)), None)"
    using walker_output [OF p, of 1] kids ret
    by (simp add: list_doc_def mk_block_def)
  moreover have "concat (map (\<lambda>ch. bytes_of (getBlock 1 ?l (GetID ch))) (tl list_doc)) =
      ''1. A'' @ LF @ ''text'' @ LF @ ''2. B'' @ LF @ ''3. C'' @ LF"
    by (simp add: run list_doc_def)
  ultimately show ?thesis
    by (simp add: eval_nat_numeral)
qed

text \<open>
  C1 as stated fails.  The toggle \<open>p\<close> has the children \<open>u\<close>, of an unsupported kind and
  with the child \<open>x\<close>, and \<open>q\<close>.  The walker's output for \<open>p\<close> is the fragment of \<open>q\<close>
  alone: the fragment of \<open>p\<close> itself is not in it, and the subtree of \<open>u\<close> is not
  visited.
\<close>

theorem walker_output_counterexample:
  "Block_Get (store_client 100 walk_doc) ''p'' = Inr (walk_doc ! 0) \<and>
   BlockToMarkdown 1 (store_client 100 walk_doc) (walk_doc ! 0) =
     Some (Returns (''::: toggle'' @ LF @ ''T'' @ LF @ '':::'' @ LF)) \<and>
   Block_GetChildren (store_client 100 walk_doc) ''p'' empty_Pagination =
     Inr \<lparr>Results = [walk_doc ! 1, walk_doc ! 3], NextCursor = [], HasMore = False\<rparr> \<and>
   value_of (getBlock 3 (store_client 100 walk_doc) ''q'') = Some (''Q'' @ LF, None) \<and>
   value_of (getBlock 3 (store_client 100 walk_doc) ''p'') = Some (''Q'' @ LF, None) \<and>
   Block_GetChildren (store_client 100 walk_doc) ''u'' empty_Pagination =
     Inr \<lparr>Results = [walk_doc ! 2], NextCursor = [], HasMore = False\<rparr> \<and>
   value_of (getBlock 3 (store_client 100 walk_doc) ''x'') = Some (''X'' @ LF, None) \<and>
   value_of (getBlock 3 (store_client 100 walk_doc) ''u'') = Some ([], None) \<and>
   value_of (getBlock 3 (store_client 100 walk_doc) ''p'') \<noteq>
     Some ((''::: toggle'' @ LF @ ''T'' @ LF @ '':::'' @ LF) @ ''X'' @ LF @ ''Q'' @ LF, None)"
  by (simp add: run walk_doc_def)

text \<open>
  C3.  When the block itself cannot be fetched, the walker returns no bytes and the error
  \<^verbatim>\<open>get block <id> error: <message>\<close>, and logs it.  When a block with children is
  fetched and listed, the walker returns without an error; a child whose call returned an
  error adds nothing to the output and an entry \<^verbatim>\<open>get block child error\<close> with the
  child's id to the log, and the other children add their output, in order.
\<close>

theorem fetch_failures:
  "(\<forall>e. Block_Get c block_id = Inl e \<longrightarrow>
      getBlock (Suc n) c block_id =
        Some (Returns ([], Some (''get block '' @ block_id @ '' error: '' @ e)),
              [logger_Error ''get block error''
                 [log_String ''block_id'' block_id, log_Error (Some e)]]))
   \<and> (\<forall>b resp. Block_Get c block_id = Inr b \<and> GetType b \<noteq> BlockTypeUnsupported \<and>
         GetHasChildren b \<and> Block_GetChildren c block_id empty_Pagination = Inr resp \<and>
         (\<forall>ch \<in> set (Results resp). returned (getBlock n c (GetID ch))) \<longrightarrow>
         returned (getBlock (Suc n) c block_id) \<and>
         error_of (getBlock (Suc n) c block_id) = None \<and>
         bytes_of (getBlock (Suc n) c block_id) =
           concat (map (\<lambda>ch. if error_of (getBlock n c (GetID ch)) = None
                              then bytes_of (getBlock n c (GetID ch)) else [])
                     (Results resp)) \<and>
         (\<forall>ch \<in> set (Results resp). \<forall>e. error_of (getBlock n c (GetID ch)) = Some e \<longrightarrow>
            logger_Error ''get block child error''
              [log_String ''block_id'' (GetID ch), log_Error (Some e)]
            \<in> set (log_of (getBlock (Suc n) c block_id))))"
proof (intro conjI allI impI)
  fix e
  assume "Block_Get c block_id = Inl e"
  then show "getBlock (Suc n) c block_id =
        Some (Returns ([], Some (''get block '' @ block_id @ '' error: '' @ e)),
              [logger_Error ''get block error''
                 [log_String ''block_id'' block_id, log_Error (Some e)]])"
    by (simp add: getBlock.simps(2))
next
  fix b resp
  assume h: "Block_Get c block_id = Inr b \<and> GetType b \<noteq> BlockTypeUnsupported \<and>
         GetHasChildren b \<and> Block_GetChildren c block_id empty_Pagination = Inr resp \<and>
         (\<forall>ch \<in> set (Results resp). returned (getBlock n c (GetID ch)))"
  then have run: "getBlock (Suc n) c block_id =
           Some (Returns (concat (map (\<lambda>ch. bytes_of (getBlock n c (GetID ch))) (Results resp)), None),
                 [logger_Info ''block''
                    [log_String ''block_id'' block_id,
                     log_String ''block_type'' (BlockType_String (GetType b))]] @
                 concat (map (\<lambda>ch. child_log (GetID ch, getBlock n c (GetID ch))) (Results resp)))"
    by (simp add: getBlock_children)
  show "returned (getBlock (Suc n) c block_id)" by (simp add: run)
  show "error_of (getBlock (Suc n) c block_id) = None" by (simp add: run)
  have empty: "bytes_of (getBlock n c i) = []" if "error_of (getBlock n c i) \<noteq> None" for i
    using that getBlock_error_empty [of n c i]
    by (cases "getBlock n c i" rule: bytes_of.cases) auto
  show "bytes_of (getBlock (Suc n) c block_id) =
           concat (map (\<lambda>ch. if error_of (getBlock n c (GetID ch)) = None
                              then bytes_of (getBlock n c (GetID ch)) else [])
                     (Results resp))"
  proof -
    have "map (\<lambda>ch. bytes_of (getBlock n c (GetID ch))) (Results resp) =
          map (\<lambda>ch. if error_of (getBlock n c (GetID ch)) = None
                     then bytes_of (getBlock n c (GetID ch)) else []) (Results resp)"
      by (rule map_cong) (use empty in auto)
    then have "concat (map (\<lambda>ch. bytes_of (getBlock n c (GetID ch))) (Results resp)) =
          concat (map (\<lambda>ch. if error_of (getBlock n c (GetID ch)) = None
                     then bytes_of (getBlock n c (GetID ch)) else []) (Results resp))"
      by (rule arg_cong)
    then show ?thesis by (simp add: run)
  qed
  show "\<forall>ch \<in> set (Results resp). \<forall>e. error_of (getBlock n c (GetID ch)) = Some e \<longrightarrow>
            logger_Error ''get block child error''
              [log_String ''block_id'' (GetID ch), log_Error (Some e)]
            \<in> set (log_of (getBlock (Suc n) c block_id))"
  proof (intro ballI allI impI)
    fix ch e
    assume ch: "ch \<in> set (Results resp)" and e: "error_of (getBlock n c (GetID ch)) = Some e"
    then have "logger_Error ''get block child error''
              [log_String ''block_id'' (GetID ch), log_Error (Some e)]
            \<in> set (child_log (GetID ch, getBlock n c (GetID ch)))"
      by (simp add: child_log_def)
    with ch show "logger_Error ''get block child error''
              [log_String ''block_id'' (GetID ch), log_Error (Some e)]
            \<in> set (log_of (getBlock (Suc n) c block_id))"
    proof -
      assume "logger_Error ''get block child error''
              [log_String ''block_id'' (GetID ch), log_Error (Some e)]
            \<in> set (child_log (GetID ch, getBlock n c (GetID ch)))"
      with ch have "logger_Error ''get block child error''
              [log_String ''block_id'' (GetID ch), log_Error (Some e)]
            \<in> set (concat (map (\<lambda>ch. child_log (GetID ch, getBlock n c (GetID ch))) (Results resp)))"
        by auto
      then show ?thesis by (simp add: run)
    qed
  qed
qed

theorem fetch_failures_witness:
  "getBlock 1 flaky_client ''s2'' =
     Some (Returns ([], Some ''get block s2 error: timeout''),
           [logger_Error ''get block error''
              [log_String ''block_id'' ''s2'', log_Error (Some ''timeout'')]]) \<and>
   returned (getBlock 2 flaky_client ''p'') \<and>
   error_of (getBlock 2 flaky_client ''p'') = None \<and>
   bytes_of (getBlock 2 flaky_client ''p'') = ''one'' @ LF @ ''three'' @ LF \<and>
   logger_Error ''get block child error''
     [log_String ''block_id'' ''s2'', log_Error (Some ''get block s2 error: timeout'')]
     \<in> set (log_of (getBlock 2 flaky_client ''p''))"
proof -
  have s2: "Block_Get flaky_client ''s2'' = Inl ''timeout''"
    by (simp add: flaky_client_def)
  have p: "Block_Get flaky_client ''p'' = Inr (sibling_doc ! 0) \<and>
      GetType (sibling_doc ! 0) \<noteq> BlockTypeUnsupported \<and> GetHasChildren (sibling_doc ! 0) \<and>
      Block_GetChildren flaky_client ''p'' empty_Pagination =
        Inr \<lparr>Results = tl sibling_doc, NextCursor = [], HasMore = False\<rparr> \<and>
      (\<forall>ch \<in> set (Results \<lparr>Results = tl sibling_doc, NextCursor = [], HasMore = False\<rparr>).
          returned (getBlock 1 flaky_client (GetID ch)))"
    by (simp add: flaky_client_def run sibling_doc_def)
  have kids: "error_of (getBlock 1 flaky_client ''s1'') = None"
    "bytes_of (getBlock 1 flaky_client ''s1'') = ''one'' @ LF"
    "error_of (getBlock 1 flaky_client ''s2'') = Some ''get block s2 error: timeout''"
    "error_of (getBlock 1 flaky_client ''s3'') = None"
    "bytes_of (getBlock 1 flaky_client ''s3'') = ''three'' @ LF"
    by (simp_all add: flaky_client_def run sibling_doc_def)
  from fetch_failures [of flaky_client "''s2''" 0] s2
  have a: "getBlock (Suc 0) flaky_client ''s2'' =
     Some (Returns ([], Some ''get block s2 error: timeout''),
           [logger_Error ''get block error''
              [log_String ''block_id'' ''s2'', log_Error (Some ''timeout'')]])"
    by simp
  note b = fetch_failures [of flaky_client "''p''" 1, THEN conjunct2, rule_format, OF p,
      simplified GetChildrenResponse.select_convs]
  have c: "GetID (sibling_doc ! 2) = ''s2'' \<and> sibling_doc ! 2 \<in> set (tl sibling_doc)"
    by (simp add: sibling_doc_def mk_block_def)
  from b have "\<forall>ch \<in> set (tl sibling_doc). \<forall>e. error_of (getBlock 1 flaky_client (GetID ch)) = Some e \<longrightarrow>
            logger_Error ''get block child error''
              [log_String ''block_id'' (GetID ch), log_Error (Some e)]
            \<in> set (log_of (getBlock (Suc 1) flaky_client ''p''))"
    by (elim conjE)
  from this [rule_format, of "sibling_doc ! 2" "''get block s2 error: timeout''"] c kids(3)
  have "logger_Error ''get block child error''
              [log_String ''block_id'' ''s2'', log_Error (Some ''get block s2 error: timeout'')]
            \<in> set (log_of (getBlock (Suc 1) flaky_client ''p''))"
    by simp
  moreover from b kids have "bytes_of (getBlock (Suc 1) flaky_client ''p'') = ''one'' @ LF @ ''three'' @ LF"
    by (simp add: sibling_doc_def mk_block_def)
  ultimately show ?thesis
    using a b by (simp add: eval_nat_numeral)
qed

section \<open>One children request\<close>

lemma getNumberedListNumber_first_page:
  "\<forall>i. g i empty_Pagination = Block_GetChildren c i empty_Pagination \<Longrightarrow>
     getNumberedListNumber (c\<lparr>Block_GetChildren := g\<rparr>) b = getNumberedListNumber c b"
  by (simp add: getNumberedListNumber_def split: option.splits)

lemma getImageURL_first_page:
  "getImageURL (c\<lparr>Block_GetChildren := g\<rparr>) b = getImageURL c b"
  by (simp add: getImageURL_def Let_def cong: sum.case_cong)

lemma BlockToMarkdown_first_page:
  assumes "\<forall>i. g i empty_Pagination = Block_GetChildren c i empty_Pagination"
  shows "BlockToMarkdown n (c\<lparr>Block_GetChildren := g\<rparr>) b = BlockToMarkdown n c b"
proof (induction n arbitrary: b)
  case 0
  show ?case by simp
next
  case (Suc n)
  show ?case
    by (simp add: BlockToMarkdown.simps(2) Suc.IH assms getNumberedListNumber_first_page
          getImageURL_first_page Let_def
          cong: BlockType.case_cong Concrete.case_cong sum.case_cong result.case_cong)
qed

lemma getBlock_first_page:
  assumes "\<forall>i. g i empty_Pagination = Block_GetChildren c i empty_Pagination"
  shows "getBlock n (c\<lparr>Block_GetChildren := g\<rparr>) block_id = getBlock n c block_id"
proof (induction n arbitrary: block_id)
  case 0
  show ?case by simp
next
  case (Suc n)
  show ?case
    by (simp add: getBlock.simps(2) Suc.IH assms BlockToMarkdown_first_page Let_def
          cong: sum.case_cong if_cong)
qed

text \<open>
  C2, as the code has it.  The walker, the renderer and the numbering helper call the
  children endpoint with the empty pagination only: what the service answers to any other
  request, a continuation cursor among them, has no effect on their results.
\<close>

theorem first_page_only:
  assumes "\<forall>i. g i empty_Pagination = Block_GetChildren c i empty_Pagination"
  shows "getBlock n (c\<lparr>Block_GetChildren := g\<rparr>) block_id = getBlock n c block_id
       \<and> BlockToMarkdown n (c\<lparr>Block_GetChildren := g\<rparr>) b = BlockToMarkdown n c b
       \<and> getNumberedListNumber (c\<lparr>Block_GetChildren := g\<rparr>) b = getNumberedListNumber c b"
  using assms
  by (simp add: getBlock_first_page BlockToMarkdown_first_page getNumberedListNumber_first_page)

theorem first_page_only_witness:
  "bytes_of (getBlock 2 ((store_client 2 list_doc)\<lparr>Block_GetChildren :=
       no_cursor (store_GetChildren 2 list_doc)\<rparr>) ''p'') = ''1. A'' @ LF @ ''text'' @ LF"
proof -
  have "\<forall>i. no_cursor (store_GetChildren 2 list_doc) i empty_Pagination =
             Block_GetChildren (store_client 2 list_doc) i empty_Pagination"
    by (simp add: no_cursor_def store_client_def offline_def)
  from this first_page_only [where g = "no_cursor (store_GetChildren 2 list_doc)"
      and c = "store_client 2 list_doc" and n = 2 and block_id = "''p''"]
  have "getBlock 2 ((store_client 2 list_doc)\<lparr>Block_GetChildren :=
       no_cursor (store_GetChildren 2 list_doc)\<rparr>) ''p'' = getBlock 2 (store_client 2 list_doc) ''p''"
    by simp
  then show ?thesis
    by (simp add: run list_doc_def)
qed

text \<open>
  C2 as stated fails: served two children to a page, the block \<open>p\<close> has the complete
  listing \<open>a, t, b, c\<close>, and the walker's output holds \<open>a\<close> and \<open>t\<close> only.
\<close>

theorem first_page_only_counterexample:
  "drain_children 3 (store_client 2 list_doc) ''p'' empty_Pagination = Some (Inr (tl list_doc)) \<and>
   bytes_of (getBlock 2 (store_client 2 list_doc) ''p'') = ''1. A'' @ LF @ ''text'' @ LF \<and>
   bytes_of (getBlock 2 (store_client 100 list_doc) ''p'') =
     ''1. A'' @ LF @ ''text'' @ LF @ ''2. B'' @ LF @ ''3. C'' @ LF \<and>
   bytes_of (getBlock 2 (store_client 2 list_doc) ''p'') \<noteq>
     bytes_of (getBlock 2 (store_client 100 list_doc) ''p'')"
  by (simp add: run list_doc_def)

section \<open>The page assembler: properties\<close>

lemma getPageContent_ok:
  "traversal_ok n c P \<Longrightarrow>
     \<exists>lg. getPageContent n c P = Some (Returns (Some (page_of n c P), None), lg)"
  unfolding traversal_ok_def
  by (cases "getBlock n c (PageInfo_Id P)" rule: bytes_of.cases)
     (auto simp: getPageContent_def page_of_def)

lemma getPageContent_error:
  "returned (getBlock n c (PageInfo_Id P)) \<Longrightarrow> error_of (getBlock n c (PageInfo_Id P)) = Some e \<Longrightarrow>
     \<exists>lg. getPageContent n c P =
       Some (Returns (None, Some (''get Page '' @ PageInfo_Id P @ '' error: '' @ e)), lg)"
  by (cases "getBlock n c (PageInfo_Id P)" rule: bytes_of.cases)
     (auto simp: getPageContent_def)

lemma pages_loop_ok:
  "\<forall>P \<in> set Ps. traversal_ok n c P \<Longrightarrow>
     value_of (pages_loop n c Ps result lg) = Some (result @ map (page_of n c) Ps, None)"
proof (induction Ps arbitrary: result lg)
  case Nil
  show ?case by simp
next
  case (Cons P Ps)
  from Cons.prems obtain lg' where
    "getPageContent n c P = Some (Returns (Some (page_of n c P), None), lg')"
    using getPageContent_ok by fastforce
  moreover from Cons.prems have "\<forall>P \<in> set Ps. traversal_ok n c P" by simp
  ultimately show ?case
    using Cons.IH [of "result @ [page_of n c P]" "lg @ lg'"] by simp
qed

lemma pages_loop_error:
  assumes "\<forall>Q \<in> set pre. traversal_ok n c Q"
    and "returned (getBlock n c (PageInfo_Id P))"
    and "error_of (getBlock n c (PageInfo_Id P)) = Some e"
  shows "value_of (pages_loop n c (pre @ P # post) result lg) =
           Some ([], Some (''get Pages '' @ PageInfo_Id P @ '' error: '' @
                           ''get Page '' @ PageInfo_Id P @ '' error: '' @ e))"
  using assms(1)
proof (induction pre arbitrary: result lg)
  case Nil
  from getPageContent_error [OF assms(2,3)] obtain lg' where
    "getPageContent n c P =
       Some (Returns (None, Some (''get Page '' @ PageInfo_Id P @ '' error: '' @ e)), lg')"
    by blast
  then show ?case by simp
next
  case (Cons Q pre)
  from Cons.prems obtain lg' where
    "getPageContent n c Q = Some (Returns (Some (page_of n c Q), None), lg')"
    using getPageContent_ok by fastforce
  moreover from Cons.prems have "\<forall>Q \<in> set pre. traversal_ok n c Q" by simp
  ultimately show ?case
    using Cons.IH [of "result @ [page_of n c Q]" "lg @ lg'"] by simp
qed

text \<open>
  C7.  When the traversal of every reference returns without an error, the assembler
  returns one page for each reference, in order, with the reference's id and title and
  the traversal's bytes.  When the traversals before some reference return without an
  error and that reference's traversal returns an error, the assembler returns no page,
  and an error that names the reference's id.
\<close>

theorem page_batch:
  "((\<forall>P \<in> set Pages. traversal_ok n c P) \<longrightarrow>
      value_of (GetPagesContent n c Pages) = Some (map (page_of n c) Pages, None))
   \<and> (\<forall>pre P post e. Pages = pre @ P # post \<and> (\<forall>Q \<in> set pre. traversal_ok n c Q) \<and>
          returned (getBlock n c (PageInfo_Id P)) \<and>
          error_of (getBlock n c (PageInfo_Id P)) = Some e \<longrightarrow>
          value_of (GetPagesContent n c Pages) =
            Some ([], Some (''get Pages '' @ PageInfo_Id P @ '' error: '' @
                            ''get Page '' @ PageInfo_Id P @ '' error: '' @ e)))"
  by (auto simp: GetPagesContent_def pages_loop_ok pages_loop_error)

theorem page_batch_witness:
  "value_of (GetPagesContent 2 (store_client 100 list_doc) page_refs) =
     Some ([\<lparr>Page_ID = ''p'', Page_Title = ''Numbers'',
              Page_Content = ''1. A'' @ LF @ ''text'' @ LF @ ''2. B'' @ LF @ ''3. C'' @ LF\<rparr>,
            \<lparr>Page_ID = ''t'', Page_Title = ''Text'', Page_Content = ''text'' @ LF\<rparr>], None) \<and>
   value_of (GetPagesContent 2 (store_client 100 list_doc) (page_refs @ missing_ref # page_refs)) =
     Some ([], Some ''get Pages gone error: get Page gone error: get block gone error: object not found'')"
proof -
  let ?c = "store_client 100 list_doc"
  have p: "returned (getBlock 2 ?c ''p'')" "error_of (getBlock 2 ?c ''p'') = None"
      "bytes_of (getBlock 2 ?c ''p'') = ''1. A'' @ LF @ ''text'' @ LF @ ''2. B'' @ LF @ ''3. C'' @ LF"
    and t: "returned (getBlock 2 ?c ''t'')" "error_of (getBlock 2 ?c ''t'') = None"
      "bytes_of (getBlock 2 ?c ''t'') = ''text'' @ LF"
    and g: "returned (getBlock 2 ?c ''gone'')"
      "error_of (getBlock 2 ?c ''gone'') = Some ''get block gone error: object not found''"
    by (simp_all add: run list_doc_def)
  have ok: "\<forall>P \<in> set page_refs. traversal_ok 2 ?c P"
    using p t by (simp add: page_refs_def traversal_ok_def)
  have bad: "returned (getBlock 2 ?c (PageInfo_Id missing_ref)) \<and>
      error_of (getBlock 2 ?c (PageInfo_Id missing_ref)) =
        Some ''get block gone error: object not found''"
    using g by (simp add: missing_ref_def)
  from page_batch [of page_refs 2 ?c] ok
  have "value_of (GetPagesContent 2 ?c page_refs) = Some (map (page_of 2 ?c) page_refs, None)"
    by blast
  moreover
  from page_batch [of "page_refs @ missing_ref # page_refs" 2 ?c] ok bad
  have "value_of (GetPagesContent 2 ?c (page_refs @ missing_ref # page_refs)) =
      Some ([], Some (''get Pages '' @ PageInfo_Id missing_ref @ '' error: '' @
                      ''get Page '' @ PageInfo_Id missing_ref @ '' error: '' @
                      ''get block gone error: object not found''))"
    by blast
  ultimately show ?thesis
    using p t by (simp add: page_refs_def page_of_def missing_ref_def)
qed

section \<open>Search: properties\<close>

lemma list_loop_decoded:
  "\<forall>obj \<in> set res. decoded_object obj \<Longrightarrow>
     list_loop res result =
       Returns (result @ map (\<lambda>obj. \<lparr>PageInfo_Id = id_of obj, PageInfo_Title = title_of obj\<rparr>)
                          (filter (\<lambda>obj. title_of obj \<noteq> []) res))"
proof (induction res arbitrary: result)
  case Nil
  show ?case by simp
next
  case (Cons obj res)
  from Cons.prems have "decoded_object obj" by simp
  then obtain i t where it: "object_id_title obj = Returns (i, t)"
    by (auto simp: decoded_object_def object_id_title_def split: if_splits ObjectConcrete.splits)
  from Cons.prems have "\<forall>obj \<in> set res. decoded_object obj" by simp
  from Cons.IH [OF this] show ?case
    by (simp add: it id_of_def title_of_def)
qed

lemma title_of_page:
  "title_of obj \<noteq> [] \<Longrightarrow>
     GetObject obj = ''page'' \<and> (\<exists>p. ObjectDynamic obj = PtrPage p \<and> title_of obj = page_title p)"
  by (auto simp: title_of_def object_id_title_def split: if_splits ObjectConcrete.splits)

text \<open>
  C6, as the code has it.  A failed search is returned as its error.  Otherwise the list
  operation returns, in the order of the results, the id and the title of each object to
  which the loop gives a title, and nothing for the others; only a page object is given a
  title, the one \<^verbatim>\<open>page_title\<close> reads from its properties.  Nothing is removed as a
  duplicate.
\<close>

theorem search_list:
  "(\<forall>e. Search_Do c (search_request titleContain) = Inl e \<longrightarrow>
       GetList c titleContain = Returns ([], Some e))
   \<and> (\<forall>res. Search_Do c (search_request titleContain) = Inr res \<and>
          (\<forall>obj \<in> set res. decoded_object obj) \<longrightarrow>
          GetList c titleContain =
            Returns (map (\<lambda>obj. \<lparr>PageInfo_Id = id_of obj, PageInfo_Title = title_of obj\<rparr>)
                       (filter (\<lambda>obj. title_of obj \<noteq> []) res), None))
   \<and> (\<forall>obj. title_of obj \<noteq> [] \<longrightarrow>
          GetObject obj = ''page'' \<and>
          (\<exists>p. ObjectDynamic obj = PtrPage p \<and> title_of obj = page_title p))"
  using title_of_page
  by (auto simp: GetList_def search_request_def list_loop_decoded simp del: list_loop.simps)

theorem search_list_witness:
  "GetList (search_client [named_page, untitled_block, roadmap, road_trips, roadmap]) ''Road'' =
     Returns ([\<lparr>PageInfo_Id = ''nm'', PageInfo_Title = ''Roads''\<rparr>,
               \<lparr>PageInfo_Id = ''pg'', PageInfo_Title = ''Roadmap''\<rparr>,
               \<lparr>PageInfo_Id = ''pg'', PageInfo_Title = ''Roadmap''\<rparr>], None) \<and>
   GetList offline ''Road'' = Returns ([], Some ''no route to host'')"
proof -
  let ?res = "[named_page, untitled_block, roadmap, road_trips, roadmap]"
  have "Search_Do (search_client ?res) (search_request ''Road'') = Inr ?res \<and>
        (\<forall>obj \<in> set ?res. decoded_object obj)"
    by (simp add: search_client_def offline_def decoded_object_def named_page_def
          untitled_block_def roadmap_def road_trips_def)
  with search_list [of "search_client ?res" "''Road''"]
  have "GetList (search_client ?res) ''Road'' =
            Returns (map (\<lambda>obj. \<lparr>PageInfo_Id = id_of obj, PageInfo_Title = title_of obj\<rparr>)
                       (filter (\<lambda>obj. title_of obj \<noteq> []) ?res), None)"
    by blast
  moreover have "Search_Do offline (search_request ''Road'') = Inl ''no route to host''"
    by (simp add: offline_def)
  with search_list [of offline "''Road''"]
  have "GetList offline ''Road'' = Returns ([], Some ''no route to host'')"
    by blast
  ultimately show ?thesis
    by (simp add: id_of_def title_of_def object_id_title_def page_title_def named_page_def
          untitled_block_def roadmap_def road_trips_def mk_block_def)
qed

text \<open>
  C6 as stated fails: of a page titled Roadmap, a block and a database titled Road
  Trips, the list operation returns the page alone; and a page the service returns twice
  is listed twice.
\<close>

theorem search_list_counterexample:
  "GetList (search_client [roadmap, untitled_block, road_trips]) ''Road'' =
     Returns ([\<lparr>PageInfo_Id = ''pg'', PageInfo_Title = ''Roadmap''\<rparr>], None) \<and>
   GetList (search_client [roadmap, roadmap]) ''Road'' =
     Returns ([\<lparr>PageInfo_Id = ''pg'', PageInfo_Title = ''Roadmap''\<rparr>,
               \<lparr>PageInfo_Id = ''pg'', PageInfo_Title = ''Roadmap''\<rparr>], None) \<and>
   GetList (search_client [roadmap, untitled_block, road_trips]) ''Road'' \<noteq>
     Returns ([\<lparr>PageInfo_Id = ''pg'', PageInfo_Title = ''Roadmap''\<rparr>,
               \<lparr>PageInfo_Id = ''db'', PageInfo_Title = ''Road Trips''\<rparr>], None)"
  by (simp add: GetList_def search_client_def offline_def search_request_def object_id_title_def
        page_title_def untitled_block_def roadmap_def road_trips_def mk_block_def)

section \<open>The renderer panics\<close>

text \<open>
  C8.  The renderer is not total.  On a video block and on an embed block as the library
  decodes them it panics, whatever the client: the video case asserts
  \<^verbatim>\<open>*notionapi.AudioBlock\<close> and the embed case the struct \<^verbatim>\<open>notionapi.EmbedBlock\<close>.
  On a table block whose children request fails it panics on the nil response, the
  error being discarded.  On a numbered-list item without a parent reference it panics
  on the nil pointer.
\<close>

theorem renderer_panics:
  "decoded (media_doc ! 0) \<and> GetType (media_doc ! 0) = BlockTypeVideo \<and>
   BlockToMarkdown (Suc n) c (media_doc ! 0) = Some (Panics interface_conversion) \<and>
   decoded (media_doc ! 1) \<and> GetType (media_doc ! 1) = BlockTypeEmbed \<and>
   BlockToMarkdown (Suc n) c (media_doc ! 1) = Some (Panics interface_conversion) \<and>
   decoded (media_doc ! 2) \<and> GetType (media_doc ! 2) = BlockTypeTableBlock \<and>
   Block_GetChildren offline (GetID (media_doc ! 2)) empty_Pagination = Inl ''object not found'' \<and>
   BlockToMarkdown (Suc n) offline (media_doc ! 2) = Some (Panics nil_dereference) \<and>
   GetType (media_doc ! 6) = BlockTypeNumberedListItem \<and> GetParent (media_doc ! 6) = None \<and>
   BlockToMarkdown (Suc n) c (media_doc ! 6) = Some (Panics nil_dereference)"
  by (simp add: BlockToMarkdown.simps(2) getNumberedListNumber_def offline_def mk_block_def
        decoded_def media_doc_def)

end
